theory Spec2Isabelle
  imports Complex_Main
begin

section \<open>The ONNX importer of onnx-mxnet (import\_onnx.py)\<close>

text \<open>
  A shallow embedding of \<^verbatim>\<open>src/onnx_mxnet/import_onnx.py\<close>: the function
  \<^verbatim>\<open>_convert_operator\<close> and the class \<^verbatim>\<open>GraphProto\<close> with its
  method \<^verbatim>\<open>from_onnx\<close> and the helpers \<^verbatim>\<open>_parse_attr\<close>,
  \<^verbatim>\<open>_fix_outputs\<close>, \<^verbatim>\<open>_fix_bias\<close>, \<^verbatim>\<open>_fix_bias_shape\<close>,
  \<^verbatim>\<open>_fix_channels\<close> and \<^verbatim>\<open>_fix_gemm\<close>. The leading underscore of
  the Python names is dropped. Every exception the Python raises is a value of
  type \<open>error\<close>; a function that can raise returns \<open>error + 'a\<close>.
\<close>

subsection \<open>Exceptions\<close>

text \<open>
  The explicit \<^verbatim>\<open>raise\<close> and \<^verbatim>\<open>assert\<close> statements of the file, one
  constructor each, followed by the exceptions Python raises by itself on a
  missing dictionary key, an index out of range and a failed conversion.
\<close>

datatype error =
    UnsupportedOperator string      \<comment> \<open>line 51, NotImplementedError\<close>
  | UnknownTargetOperator string    \<comment> \<open>line 54, RuntimeError\<close>
  | InvalidTensorName               \<comment> \<open>line 89, ValueError\<close>
  | OutputArityMismatch             \<comment> \<open>line 124, AssertionError\<close>
  | DuplicateAttributeType          \<comment> \<open>line 170, AssertionError\<close>
  | UnsupportedAttributeKind string \<comment> \<open>lines 174 and 177, NotImplementedError\<close>
  | UnparsableAttribute string      \<comment> \<open>line 179, ValueError\<close>
  | UnexpectedOutputArity           \<comment> \<open>line 187, AssertionError\<close>
  | UnexpectedInputArity            \<comment> \<open>line 201, ValueError\<close>
  | InvalidBiasShape                \<comment> \<open>lines 208 and 211, AssertionError\<close>
  | MissingWeightParameter          \<comment> \<open>line 227, ValueError\<close>
  | InvalidWeightShape              \<comment> \<open>line 230, AssertionError\<close>
  | KeyError string                 \<comment> \<open>\<^verbatim>\<open>d[k]\<close> with \<^verbatim>\<open>k\<close> not in \<^verbatim>\<open>d\<close>\<close>
  | KeyErrorNone                    \<comment> \<open>\<^verbatim>\<open>d[None]\<close>\<close>
  | IndexError                      \<comment> \<open>\<^verbatim>\<open>xs[i]\<close> out of range\<close>
  | TypeError                       \<comment> \<open>\<^verbatim>\<open>float\<close> or \<^verbatim>\<open>int\<close> of a tuple\<close>
  | ConversionError                 \<comment> \<open>\<^verbatim>\<open>float\<close> or \<^verbatim>\<open>int\<close> of a string that does not parse\<close>
  | FrameworkError string           \<comment> \<open>raised inside onnx or mxnet\<close>

definition ebind :: "error + 'a \<Rightarrow> ('a \<Rightarrow> error + 'b) \<Rightarrow> error + 'b" where
  "ebind m k = (case m of Inl e \<Rightarrow> Inl e | Inr x \<Rightarrow> k x)"

subsection \<open>The protobuf messages read by the importer\<close>

text \<open>
  An \<^verbatim>\<open>AttributeProto\<close>. The scalar fields \<^verbatim>\<open>f\<close>, \<^verbatim>\<open>i\<close>,
  \<^verbatim>\<open>s\<close> are optional (\<^verbatim>\<open>HasField\<close> is \<open>\<noteq> None\<close>), the list fields are
  repeated. The importer never reads the payload of \<^verbatim>\<open>t\<close>, \<^verbatim>\<open>g\<close>,
  \<^verbatim>\<open>tensors\<close>, \<^verbatim>\<open>graphs\<close>: only whether they are set, and how many
  entries the repeated ones have. Floats are modelled as reals.
\<close>

record attribute_proto =
  attr_name :: string
  attr_f :: "real option"
  attr_i :: "int option"
  attr_s :: "string option"
  attr_floats :: "real list"
  attr_ints :: "int list"
  attr_strings :: "string list"
  attr_has_t :: bool
  attr_has_g :: bool
  attr_tensors :: nat
  attr_graphs :: nat

record node_proto =
  op_type :: string
  node_name :: string
  node_input :: "string list"
  node_output :: "string list"
  node_attribute :: "attribute_proto list"

record tensor_proto =
  tensor_name :: string
  tensor_dims :: "int list"
  tensor_data :: "real list"

record value_info_proto =
  value_name :: string

record graph_proto =
  graph_initializer :: "tensor_proto list"
  graph_input :: "value_info_proto list"
  graph_output :: "value_info_proto list"
  graph_node :: "node_proto list"

subsection \<open>Values of the target framework\<close>

text \<open>
  The value of an entry of an attribute dictionary: what \<^verbatim>\<open>_parse_attr\<close>
  stores (a float, an int, a byte string, or a tuple of one of these) and what the
  fix-ups store (a Python bool for \<^verbatim>\<open>no_bias\<close>, an int for the channel count).
\<close>

datatype attr_value =
    AFloat real
  | AInt int
  | AStr string
  | AFloats "real list"
  | AInts "int list"
  | AStrs "string list"
  | ABool bool

type_synonym attrs = "string \<rightharpoonup> attr_value"

text \<open>An \<^verbatim>\<open>mx.nd.array\<close>: its shape and its flat buffer.\<close>

record ndarray =
  shape :: "nat list"
  buf :: "real list"

text \<open>
  An \<^verbatim>\<open>mx.sym\<close> symbol, as the importer builds it:
  \<^verbatim>\<open>mx.sym.Variable(name=n)\<close> and \<^verbatim>\<open>mx.sym.Variable(name=n, shape=s)\<close>,
  \<^verbatim>\<open>mx.sym.transpose(x, axes=(1, 0))\<close>, \<^verbatim>\<open>alpha * x\<close>,
  \<^verbatim>\<open>new_op(name=node_name, *inputs, **new_attr)\<close>, \<^verbatim>\<open>op[i]\<close> and
  \<^verbatim>\<open>mx.sym.Group(out)\<close>.
\<close>

datatype symbol =
    Variable string "nat list option"
  | Transpose symbol
  | MulScalar real symbol
  | Apply string "string option" "symbol list" attrs
  | Slot symbol nat
  | Group "symbol list"

text \<open>
  \<^verbatim>\<open>sym.name\<close>. A variable has the name it was created with, and an operator
  node the name it was given. For a node built with \<^verbatim>\<open>name=None\<close> the
  framework generates a name; the model keeps \<open>None\<close> for it, as for every
  symbol the framework names by itself.
\<close>

fun sym_name :: "symbol \<Rightarrow> string option" where
  "sym_name (Variable n _) = Some n"
| "sym_name (Apply _ n _ _) = n"
| "sym_name (Slot s _) = sym_name s"
| "sym_name _ = None"

subsection \<open>What the file imports\<close>

text \<open>
  The file uses, and does not define: the tables \<^verbatim>\<open>_identity_list\<close> and
  \<^verbatim>\<open>_convert_map\<close> of \<^verbatim>\<open>import_helper\<close>, the namespace
  \<^verbatim>\<open>mx.sym\<close> (which names \<^verbatim>\<open>getattr(mx.sym, n, None)\<close> resolves, and
  how many outputs a constructed operator node lists, if the constructor accepts
  its arguments), \<^verbatim>\<open>onnx.numpy_helper.to_array\<close> with numpy's
  \<^verbatim>\<open>reshape\<close> and \<^verbatim>\<open>mx.nd.array\<close> (all of \<^verbatim>\<open>_parse_array\<close>), and
  Python's \<^verbatim>\<open>float\<close> and \<^verbatim>\<open>int\<close> on byte strings. They are the fields
  of an environment that the functions below take as a parameter.
\<close>

record env =
  identity_list_default :: "string list"
  convert_map_default :: "(string \<times> (attrs \<Rightarrow> error + string \<times> attrs)) list"
  mx_sym :: "string \<Rightarrow> bool"
  list_outputs :: "string \<Rightarrow> symbol list \<Rightarrow> attrs \<Rightarrow> error + nat"
  parse_array :: "tensor_proto \<Rightarrow> error + ndarray"
  float_of_bytes :: "string \<Rightarrow> real option"
  int_of_bytes :: "string \<Rightarrow> int option"

subsection \<open>Python primitives\<close>

text \<open>\<^verbatim>\<open>'{}'.format(n)\<close> for a non-negative integer: its decimal digits.\<close>

definition digit_char :: "nat \<Rightarrow> char" where
  "digit_char d = ''0123456789'' ! d"

fun format_nat :: "nat \<Rightarrow> string" where
  "format_nat n =
     (if n < 10 then [digit_char n] else format_nat (n div 10) @ [digit_char (n mod 10)])"

declare format_nat.simps [simp del]

text \<open>
  \<^verbatim>\<open>s.strip()\<close> is empty iff every character of \<^verbatim>\<open>s\<close> is white space; the
  white space of the ASCII range is tab, line feed, vertical tab, form feed,
  carriage return, the separators 28 to 31 and the space.
\<close>

definition is_space :: "char \<Rightarrow> bool" where
  "is_space c = (of_char c \<in> {9, 10, 11, 12, 13, 28, 29, 30, 31, 32 :: nat})"

definition strip :: "string \<Rightarrow> string" where
  "strip s = rev (dropWhile is_space (rev (dropWhile is_space s)))"

text \<open>\<^verbatim>\<open>xs[i]\<close> on a list, with Python's negative indices.\<close>

definition getitem :: "'a list \<Rightarrow> int \<Rightarrow> error + 'a" where
  "getitem xs i =
     (if 0 \<le> i \<and> i < int (length xs) then Inr (xs ! nat i)
      else if i < 0 \<and> - int (length xs) \<le> i then Inr (xs ! nat (int (length xs) + i))
      else Inl IndexError)"

text \<open>\<^verbatim>\<open>d[k]\<close> on a dictionary with string keys.\<close>

definition lookup :: "(string \<rightharpoonup> 'v) \<Rightarrow> string \<Rightarrow> error + 'v" where
  "lookup d k = (case d k of None \<Rightarrow> Inl (KeyError k) | Some v \<Rightarrow> Inr v)"

text \<open>
  \<^verbatim>\<open>float(v)\<close> and \<^verbatim>\<open>int(v)\<close> on an attribute value; \<^verbatim>\<open>int\<close> of a
  float truncates towards zero, and a bool is an int.
\<close>

fun py_float :: "env \<Rightarrow> attr_value \<Rightarrow> error + real" where
  "py_float E (AFloat x) = Inr x"
| "py_float E (AInt n) = Inr (of_int n)"
| "py_float E (ABool b) = Inr (if b then 1 else 0)"
| "py_float E (AStr s) =
     (case float_of_bytes E s of None \<Rightarrow> Inl ConversionError | Some x \<Rightarrow> Inr x)"
| "py_float E _ = Inl TypeError"

fun py_int :: "env \<Rightarrow> attr_value \<Rightarrow> error + int" where
  "py_int E (AFloat x) = Inr (if 0 \<le> x then \<lfloor>x\<rfloor> else \<lceil>x\<rceil>)"
| "py_int E (AInt n) = Inr n"
| "py_int E (ABool b) = Inr (if b then 1 else 0)"
| "py_int E (AStr s) =
     (case int_of_bytes E s of None \<Rightarrow> Inl ConversionError | Some n \<Rightarrow> Inr n)"
| "py_int E _ = Inl TypeError"

subsection \<open>\<^verbatim>\<open>_convert_operator\<close>\<close>

text \<open>
  An operator of \<^verbatim>\<open>mx.sym\<close> is modelled by its name: \<^verbatim>\<open>getattr(mx.sym,
  op_name, None)\<close> is the operator called \<^verbatim>\<open>op_name\<close> if \<open>mx_sym\<close> holds of
  the name, and \<^verbatim>\<open>None\<close> otherwise. An argument that is \<^verbatim>\<open>None\<close> or empty
  is replaced by the table of \<^verbatim>\<open>import_helper\<close>. A dictionary of conversion
  functions is a list of pairs with distinct keys.
\<close>

type_synonym converter = "attrs \<Rightarrow> error + string \<times> attrs"

definition or_default :: "'a list option \<Rightarrow> 'a list \<Rightarrow> 'a list" where
  "or_default arg dflt = (case arg of None \<Rightarrow> dflt | Some xs \<Rightarrow> if xs = [] then dflt else xs)"

definition convert_operator ::
  "env \<Rightarrow> string \<Rightarrow> attrs \<Rightarrow> string list option \<Rightarrow> (string \<times> converter) list option
     \<Rightarrow> error + string \<times> attrs" where
  "convert_operator E op_name attrs identity_list convert_map =
     (let identity_list = or_default identity_list (identity_list_default E);
          convert_map = or_default convert_map (convert_map_default E)
      in ebind
           (if op_name \<in> set identity_list then Inr (op_name, attrs)
            else case map_of convert_map op_name of
                   Some cv \<Rightarrow> cv attrs
                 | None \<Rightarrow> Inl (UnsupportedOperator op_name))
           (\<lambda>(op_name, attrs).
              if mx_sym E op_name then Inr (op_name, attrs)
              else Inl (UnknownTargetOperator op_name)))"

subsection \<open>\<^verbatim>\<open>GraphProto\<close>: the state of an instance\<close>

record builder =
  nodes :: "string \<rightharpoonup> symbol"
  params :: "string \<rightharpoonup> ndarray"
  renames :: "string \<rightharpoonup> string"
  num_input :: nat
  num_param :: nat

text \<open>\<^verbatim>\<open>__init__\<close>\<close>

definition init :: builder where
  "init = \<lparr>nodes = Map.empty, params = Map.empty, renames = Map.empty,
           num_input = 0, num_param = 0\<rparr>"

subsection \<open>\<^verbatim>\<open>_parse_attr\<close>\<close>

text \<open>
  The body of the loop over the attributes, in the order of the source: the three
  scalar fields (each assignment overwrites), the three list fields (each asserts
  that the name is not yet a key), the rejected fields, and the final test that
  the name is a key.
\<close>

definition parse_scalars :: "attribute_proto \<Rightarrow> attrs \<Rightarrow> attrs" where
  "parse_scalars a attrs =
     (let attrs = (case attr_f a of Some x \<Rightarrow> attrs(attr_name a \<mapsto> AFloat x) | None \<Rightarrow> attrs);
          attrs = (case attr_i a of Some n \<Rightarrow> attrs(attr_name a \<mapsto> AInt n) | None \<Rightarrow> attrs);
          attrs = (case attr_s a of Some s \<Rightarrow> attrs(attr_name a \<mapsto> AStr s) | None \<Rightarrow> attrs)
      in attrs)"

definition parse_list :: "string \<Rightarrow> bool \<Rightarrow> attr_value \<Rightarrow> attrs \<Rightarrow> error + attrs" where
  "parse_list name nonempty v attrs =
     (if nonempty then
        (if attrs name \<noteq> None then Inl DuplicateAttributeType else Inr (attrs(name \<mapsto> v)))
      else Inr attrs)"

definition parse_one :: "attribute_proto \<Rightarrow> attrs \<Rightarrow> error + attrs" where
  "parse_one a attrs =
     ebind (parse_list (attr_name a) (attr_floats a \<noteq> []) (AFloats (attr_floats a))
              (parse_scalars a attrs)) (\<lambda>attrs.
     ebind (parse_list (attr_name a) (attr_ints a \<noteq> []) (AInts (attr_ints a)) attrs) (\<lambda>attrs.
     ebind (parse_list (attr_name a) (attr_strings a \<noteq> []) (AStrs (attr_strings a)) attrs) (\<lambda>attrs.
       if attr_has_t a then Inl (UnsupportedAttributeKind ''t'')
       else if attr_has_g a then Inl (UnsupportedAttributeKind ''g'')
       else if attr_tensors a \<noteq> 0 then Inl (UnsupportedAttributeKind ''tensors'')
       else if attr_graphs a \<noteq> 0 then Inl (UnsupportedAttributeKind ''graphs'')
       else if attrs (attr_name a) = None then Inl (UnparsableAttribute (attr_name a))
       else Inr attrs)))"

fun parse_attr_loop :: "attribute_proto list \<Rightarrow> attrs \<Rightarrow> error + attrs" where
  "parse_attr_loop [] attrs = Inr attrs"
| "parse_attr_loop (a # as) attrs = ebind (parse_one a attrs) (parse_attr_loop as)"

definition parse_attr :: "attribute_proto list \<Rightarrow> error + attrs" where
  "parse_attr attr_proto = parse_attr_loop attr_proto Map.empty"

subsection \<open>\<^verbatim>\<open>_fix_outputs\<close>\<close>

definition fix_outputs :: "string \<Rightarrow> string list \<Rightarrow> error + string list" where
  "fix_outputs op outputs =
     (if op = ''Dropout'' then
        (if length outputs \<noteq> 2 then Inl UnexpectedOutputArity else Inr (butlast outputs))
      else Inr outputs)"

subsection \<open>\<^verbatim>\<open>_fix_bias\<close>\<close>

text \<open>
  \<^verbatim>\<open>[mx.sym.Convolution, mx.sym.Deconvolution, mx.sym.FullyConnected]\<close>, the
  operators by their names.
\<close>

definition conv_family :: "string list" where
  "conv_family = [''Convolution'', ''Deconvolution'', ''FullyConnected'']"

definition fix_bias :: "string \<Rightarrow> attrs \<Rightarrow> nat \<Rightarrow> error + attrs" where
  "fix_bias op attrs num_inputs =
     (if op \<notin> set conv_family then Inr attrs
      else if num_inputs = 3 then Inr (attrs(''no_bias'' \<mapsto> ABool False))
      else if num_inputs = 2 then Inr (attrs(''no_bias'' \<mapsto> ABool True))
      else Inl UnexpectedInputArity)"

subsection \<open>\<^verbatim>\<open>_fix_bias_shape\<close>\<close>

text \<open>\<^verbatim>\<open>self._renames.get(i, i)\<close>\<close>

definition resolve :: "builder \<Rightarrow> string \<Rightarrow> string" where
  "resolve st i = (case renames st i of None \<Rightarrow> i | Some r \<Rightarrow> r)"

text \<open>
  \<^verbatim>\<open>mx.nd.array(bias.asnumpy().reshape((1, -1, 1, 1)))\<close>: the three given
  dimensions are 1, so the inferred one is the number of elements.
\<close>

definition reshape_bias :: "ndarray \<Rightarrow> ndarray" where
  "reshape_bias b = b\<lparr>shape := [1, prod_list (shape b), 1, 1]\<rparr>"

definition fix_bias_shape :: "builder \<Rightarrow> string \<Rightarrow> string \<Rightarrow> string list \<Rightarrow> error + builder" where
  "fix_bias_shape st op_name last_op_name inputs =
     (if op_name = ''Add'' \<and> last_op_name = ''Conv'' then
        (if length inputs \<noteq> 2 then Inl InvalidBiasShape
         else
           let bias_name = resolve st (inputs ! 1) in
           ebind (lookup (params st) bias_name) (\<lambda>bias.
             if length (shape bias) \<noteq> 1 then Inl InvalidBiasShape
             else
               let bias = reshape_bias bias in
               Inr (st\<lparr>nodes := (nodes st)(bias_name \<mapsto> Variable bias_name (Some (shape bias))),
                       params := (params st)(bias_name \<mapsto> bias)\<rparr>)))
      else Inr st)"

subsection \<open>\<^verbatim>\<open>_fix_channels\<close>\<close>

definition fix_channels :: "builder \<Rightarrow> string \<Rightarrow> attrs \<Rightarrow> string list \<Rightarrow> error + attrs" where
  "fix_channels st op attrs inputs =
     (if op \<notin> set conv_family then Inr attrs
      else
        ebind (getitem inputs 1) (\<lambda>input1.
        ebind (lookup (renames st) input1) (\<lambda>weight_name.
          case params st weight_name of
            None \<Rightarrow> Inl MissingWeightParameter
          | Some weight \<Rightarrow>
              let wshape = shape weight in
              if \<not> length wshape \<ge> 2 then Inl InvalidWeightShape
              else
                let channels = wshape ! 0 in
                if op = ''FullyConnected''
                then Inr (attrs(''num_hidden'' \<mapsto> AInt (int channels)))
                else Inr (attrs(''num_filter'' \<mapsto> AInt (int channels))))))"

subsection \<open>\<^verbatim>\<open>_fix_gemm\<close>\<close>

text \<open>\<^verbatim>\<open>old_attr.get(k, d)\<close>\<close>

definition get_or :: "attrs \<Rightarrow> string \<Rightarrow> attr_value \<Rightarrow> attr_value" where
  "get_or d k dflt = (case d k of None \<Rightarrow> dflt | Some v \<Rightarrow> v)"

text \<open>\<^verbatim>\<open>inputs[i] = mx.sym.transpose(inputs[i], axes=(1, 0))\<close>\<close>

definition transpose_at :: "symbol list \<Rightarrow> nat \<Rightarrow> error + symbol list" where
  "transpose_at inputs i = ebind (getitem inputs (int i)) (\<lambda>x. Inr (inputs[i := Transpose x]))"

definition fix_gemm ::
  "env \<Rightarrow> builder \<Rightarrow> string \<Rightarrow> symbol list \<Rightarrow> attrs
     \<Rightarrow> error + string option \<times> symbol list \<times> attrs" where
  "fix_gemm E st op_name inputs old_attr =
     (let op = (if mx_sym E op_name then Some op_name else None) in
      ebind (py_float E (get_or old_attr ''alpha'' (AFloat 1))) (\<lambda>alpha.
      ebind (py_float E (get_or old_attr ''beta'' (AFloat 1))) (\<lambda>beta.
      ebind (py_int E (get_or old_attr ''transA'' (AInt 0))) (\<lambda>transA.
      ebind (py_int E (get_or old_attr ''transB'' (AInt 0))) (\<lambda>transB.
      ebind (if transA \<noteq> 0 then transpose_at inputs 0 else Inr inputs) (\<lambda>inputs.
      ebind (if \<not> transB \<noteq> 0 then transpose_at inputs 1 else Inr inputs) (\<lambda>inputs.
      ebind (getitem inputs 0) (\<lambda>input0.
      ebind (getitem inputs 1) (\<lambda>input1.
      ebind (getitem inputs 2) (\<lambda>input2.
        let new_inputs = [MulScalar alpha input0, input1, MulScalar beta input2] in
        ebind (case sym_name input2 of
                 None \<Rightarrow> Inl KeyErrorNone
               | Some n \<Rightarrow> lookup (params st) n) (\<lambda>bias.
        ebind (getitem (shape bias) 0) (\<lambda>num_hidden.
          Inr (op, new_inputs, [''num_hidden'' \<mapsto> AInt (int num_hidden)])))))))))))))"

subsection \<open>\<^verbatim>\<open>from_onnx\<close>\<close>

text \<open>The loop over \<^verbatim>\<open>graph.initializer\<close> (lines 87 to 90).\<close>

fun ingest_initializers :: "env \<Rightarrow> tensor_proto list \<Rightarrow> builder \<Rightarrow> error + builder" where
  "ingest_initializers E [] st = Inr st"
| "ingest_initializers E (init_tensor # rest) st =
     (if strip (tensor_name init_tensor) = [] then Inl InvalidTensorName
      else ebind (parse_array E init_tensor) (\<lambda>a.
             ingest_initializers E rest
               (st\<lparr>params := (params st)(tensor_name init_tensor \<mapsto> a)\<rparr>)))"

text \<open>\<^verbatim>\<open>'param_{}'.format(n)\<close> and \<^verbatim>\<open>'input_{}'.format(n)\<close>\<close>

definition param_name :: "nat \<Rightarrow> string" where
  "param_name n = ''param_'' @ format_nat n"

definition input_name :: "nat \<Rightarrow> string" where
  "input_name n = ''input_'' @ format_nat n"

text \<open>
  The body of the loop over \<^verbatim>\<open>graph.input\<close> (lines 93 to 104). In
  \<^verbatim>\<open>self._params[name_param] = self._params.pop(i.name)\<close> the right-hand side
  runs first.
\<close>

definition ingest_input :: "value_info_proto \<Rightarrow> builder \<Rightarrow> builder" where
  "ingest_input i st =
     (case params st (value_name i) of
        Some p \<Rightarrow>
          let name_param = param_name (num_param st) in
          st\<lparr>num_param := num_param st + 1,
             params := ((params st)(value_name i := None))(name_param \<mapsto> p),
             nodes := (nodes st)(name_param \<mapsto> Variable name_param (Some (shape p))),
             renames := (renames st)(value_name i \<mapsto> name_param)\<rparr>
      | None \<Rightarrow>
          let name_input = input_name (num_input st) in
          st\<lparr>num_input := num_input st + 1,
             nodes := (nodes st)(name_input \<mapsto> Variable name_input None),
             renames := (renames st)(value_name i \<mapsto> name_input)\<rparr>)"

fun ingest_inputs :: "value_info_proto list \<Rightarrow> builder \<Rightarrow> builder" where
  "ingest_inputs [] st = st"
| "ingest_inputs (i # rest) st = ingest_inputs rest (ingest_input i st)"

text \<open>A list comprehension whose element expression can raise.\<close>

fun collect :: "('a \<Rightarrow> error + 'b) \<Rightarrow> 'a list \<Rightarrow> error + 'b list" where
  "collect g [] = Inr []"
| "collect g (x # xs) = ebind (g x) (\<lambda>y. ebind (collect g xs) (\<lambda>ys. Inr (y # ys)))"

text \<open>\<^verbatim>\<open>[self._nodes[self._renames.get(i, i)] for i in node.input]\<close>\<close>

definition input_symbols :: "builder \<Rightarrow> string list \<Rightarrow> error + symbol list" where
  "input_symbols st inputs = collect (\<lambda>i. lookup (nodes st) (resolve st i)) inputs"

text \<open>
  \<^verbatim>\<open>for k, i in zip(list(node_output), range(len(node_output))):
  self._nodes[k] = op[i]\<close>
\<close>

fun register_outputs ::
  "symbol \<Rightarrow> string list \<Rightarrow> nat \<Rightarrow> (string \<rightharpoonup> symbol) \<Rightarrow> (string \<rightharpoonup> symbol)" where
  "register_outputs op [] i m = m"
| "register_outputs op (k # ks) i m = register_outputs op ks (Suc i) (m(k \<mapsto> Slot op i))"

text \<open>
  The body of the loop over \<^verbatim>\<open>graph.node\<close>, lines 111 to 116: the
  attributes, the translated operator, the input symbols, and the two fix-ups of
  the attributes. The result is the parsed attribute dictionary and the translated
  operator with its attributes.

  When the operator is in the identity list, \<^verbatim>\<open>new_attr\<close> and \<^verbatim>\<open>attr\<close> are
  one dictionary, and the keys the fix-ups write (\<^verbatim>\<open>no_bias\<close>,
  \<^verbatim>\<open>num_hidden\<close>, \<^verbatim>\<open>num_filter\<close>) appear in \<^verbatim>\<open>attr\<close> too. The only
  later reader of \<^verbatim>\<open>attr\<close> is \<^verbatim>\<open>_fix_gemm\<close>, which reads four other keys.
\<close>

definition node_prepare :: "env \<Rightarrow> builder \<Rightarrow> node_proto \<Rightarrow> error + attrs \<times> string \<times> attrs" where
  "node_prepare E st node =
     ebind (parse_attr (node_attribute node)) (\<lambda>attr.
     ebind (convert_operator E (op_type node) attr None None) (\<lambda>(new_op, new_attr).
     ebind (input_symbols st (node_input node)) (\<lambda>inputs.
     ebind (fix_bias new_op new_attr (length inputs)) (\<lambda>new_attr.
     ebind (fix_channels st new_op new_attr (node_input node)) (\<lambda>new_attr.
       Inr (attr, new_op, new_attr))))))"

text \<open>
  Line 117, after the lines above: \<^verbatim>\<open>graph.node[idx - 1]\<close> is read with
  Python's indexing, then \<^verbatim>\<open>_fix_bias_shape\<close> runs. The result adds the state
  it leaves.
\<close>

definition node_fixups ::
  "env \<Rightarrow> node_proto list \<Rightarrow> builder \<Rightarrow> nat \<Rightarrow> node_proto
     \<Rightarrow> error + attrs \<times> string \<times> attrs \<times> builder" where
  "node_fixups E graph_nodes st idx node =
     ebind (node_prepare E st node) (\<lambda>(attr, new_op, new_attr).
     ebind (getitem graph_nodes (int idx - 1)) (\<lambda>last_node.
     ebind (fix_bias_shape st (op_type node) (op_type last_node) (node_input node)) (\<lambda>st.
       Inr (attr, new_op, new_attr, st))))"

text \<open>
  Lines 119 to 128: the input symbols again, the Gemm case, the
  construction of the operator node, and the registration of its outputs. Calling
  \<^verbatim>\<open>None\<close> raises a TypeError.
\<close>

definition node_build ::
  "env \<Rightarrow> node_proto \<Rightarrow> attrs \<times> string \<times> attrs \<times> builder \<Rightarrow> error + builder" where
  "node_build E node r =
     (case r of (attr, new_op, new_attr, st) \<Rightarrow>
      let op_name = op_type node;
          node_name = strip (node_name node);
          node_name = (if node_name = [] then None else Some node_name) in
      ebind (input_symbols st (node_input node)) (\<lambda>inputs.
      ebind (if op_name = ''Gemm'' then fix_gemm E st ''FullyConnected'' inputs attr
             else Inr (Some new_op, inputs, new_attr)) (\<lambda>(new_op, inputs, new_attr).
      ebind (case new_op of None \<Rightarrow> Inl TypeError | Some f \<Rightarrow> Inr f) (\<lambda>new_op.
      ebind (list_outputs E new_op inputs new_attr) (\<lambda>num_outputs.
        let op = Apply new_op node_name inputs new_attr in
        ebind (fix_outputs op_name (node_output node)) (\<lambda>node_output.
          if length node_output \<noteq> num_outputs then Inl OutputArityMismatch
          else Inr (st\<lparr>nodes := register_outputs op node_output 0 (nodes st)\<rparr>)))))))"

definition translate_node ::
  "env \<Rightarrow> node_proto list \<Rightarrow> builder \<Rightarrow> nat \<Rightarrow> node_proto \<Rightarrow> error + builder" where
  "translate_node E graph_nodes st idx node =
     ebind (node_fixups E graph_nodes st idx node) (node_build E node)"

text \<open>\<^verbatim>\<open>for idx, node in enumerate(graph.node)\<close>, from index \<open>idx\<close> on.\<close>

fun translate_nodes ::
  "env \<Rightarrow> node_proto list \<Rightarrow> nat \<Rightarrow> node_proto list \<Rightarrow> builder \<Rightarrow> error + builder" where
  "translate_nodes E graph_nodes idx [] st = Inr st"
| "translate_nodes E graph_nodes idx (node # rest) st =
     ebind (translate_node E graph_nodes st idx node)
       (translate_nodes E graph_nodes (Suc idx) rest)"

text \<open>
  \<^verbatim>\<open>from_onnx\<close> on an instance in state \<open>st\<close>: the symbol and the parameters
  it returns, and the state it leaves.
\<close>

definition from_onnx ::
  "env \<Rightarrow> builder \<Rightarrow> graph_proto \<Rightarrow> error + (symbol \<times> (string \<rightharpoonup> ndarray)) \<times> builder" where
  "from_onnx E st graph =
     ebind (ingest_initializers E (graph_initializer graph) st) (\<lambda>st.
       let st = ingest_inputs (graph_input graph) st in
       ebind (translate_nodes E (graph_node graph) 0 (graph_node graph) st) (\<lambda>st.
       ebind (collect (\<lambda>i. lookup (nodes st) (value_name i)) (graph_output graph)) (\<lambda>out.
       ebind (if length out > 1 then Inr (Group out) else getitem out 0) (\<lambda>out.
         Inr ((out, params st), st)))))"

subsection \<open>The canonical identifiers\<close>

text \<open>
  The identifiers \<^verbatim>\<open>input_0\<close>, ..., \<^verbatim>\<open>input_(n-1)\<close> and
  \<^verbatim>\<open>param_0\<close>, ..., \<^verbatim>\<open>param_(n-1)\<close>.
\<close>

definition input_ids :: "nat \<Rightarrow> string set" where
  "input_ids n = input_name ` {..<n}"

definition param_ids :: "nat \<Rightarrow> string set" where
  "param_ids n = param_name ` {..<n}"

text \<open>
  The values of \<^verbatim>\<open>_renames\<close> are exactly the identifiers below the two
  counters, and no two keys have the same value.
\<close>

definition dense :: "builder \<Rightarrow> bool" where
  "dense st \<longleftrightarrow>
     ran (renames st) = input_ids (num_input st) \<union> param_ids (num_param st) \<and>
     inj_on (renames st) (dom (renames st))"

subsection \<open>An environment and a graph to run the importer on\<close>

text \<open>
  A small instance of what the file imports: two operators that need no
  conversion, three that are renamed, every constructed node with one output.
\<close>

definition example_env :: env where
  "example_env =
     \<lparr>identity_list_default = [''Relu'', ''Dropout''],
      convert_map_default =
        [(''Add'', \<lambda>a. Inr (''broadcast_add'', a)),
         (''Conv'', \<lambda>a. Inr (''Convolution'', a)),
         (''Gemm'', \<lambda>a. Inr (''FullyConnected'', a))],
      mx_sym = (\<lambda>n. n \<in> set [''Relu'', ''Dropout'', ''broadcast_add'', ''Convolution'',
                                ''Deconvolution'', ''FullyConnected'']),
      list_outputs = (\<lambda>f inputs a. Inr 1),
      parse_array = (\<lambda>t. Inr \<lparr>shape = map nat (tensor_dims t), buf = tensor_data t\<rparr>),
      float_of_bytes = (\<lambda>s. None),
      int_of_bytes = (\<lambda>s. None)\<rparr>"

text \<open>
  A graph whose first node is an \<^verbatim>\<open>Add\<close> and whose last node is a
  \<^verbatim>\<open>Conv\<close>, and the state of the importer after the inputs \<^verbatim>\<open>x\<close>,
  \<^verbatim>\<open>b\<close> (an initializer of shape 16) and \<^verbatim>\<open>w\<close> (an initializer of shape
  16, 3, 3, 3) have been read.
\<close>

definition add_node :: node_proto where
  "add_node = \<lparr>op_type = ''Add'', node_name = [], node_input = [''x'', ''b''],
               node_output = [''y''], node_attribute = []\<rparr>"

definition conv_node :: node_proto where
  "conv_node = \<lparr>op_type = ''Conv'', node_name = [], node_input = [''y'', ''w''],
                node_output = [''z''], node_attribute = []\<rparr>"

definition add_first_state :: builder where
  "add_first_state =
     \<lparr>nodes = [''input_0'' \<mapsto> Variable ''input_0'' None,
               ''param_0'' \<mapsto> Variable ''param_0'' (Some [16]),
               ''param_1'' \<mapsto> Variable ''param_1'' (Some [16, 3, 3, 3])],
      params = [''param_0'' \<mapsto> \<lparr>shape = [16], buf = []\<rparr>,
                ''param_1'' \<mapsto> \<lparr>shape = [16, 3, 3, 3], buf = []\<rparr>],
      renames = [''x'' \<mapsto> ''input_0'', ''b'' \<mapsto> ''param_0'', ''w'' \<mapsto> ''param_1''],
      num_input = 1, num_param = 2\<rparr>"

text \<open>
  A graph with one initializer, listed among its two inputs, and the state of a
  fresh importer after the loop over the initializers.
\<close>

definition example_graph :: graph_proto where
  "example_graph =
     \<lparr>graph_initializer = [\<lparr>tensor_name = ''w'', tensor_dims = [10, 5], tensor_data = []\<rparr>],
      graph_input = [\<lparr>value_name = ''x''\<rparr>, \<lparr>value_name = ''w''\<rparr>],
      graph_output = [\<lparr>value_name = ''y''\<rparr>],
      graph_node = []\<rparr>"

definition example_start :: builder where
  "example_start = init\<lparr>params := [''w'' \<mapsto> \<lparr>shape = [10, 5], buf = []\<rparr>]\<rparr>"

text \<open>
  A graph whose convolution takes its weight from an earlier node: the states of a
  fresh importer after the loop over the inputs and after the first node.
\<close>

definition relu_node :: node_proto where
  "relu_node = \<lparr>op_type = ''Relu'', node_name = [], node_input = [''x''],
                node_output = [''w''], node_attribute = []\<rparr>"

definition computed_weight_conv :: node_proto where
  "computed_weight_conv = \<lparr>op_type = ''Conv'', node_name = [], node_input = [''x'', ''w''],
                           node_output = [''y''], node_attribute = []\<rparr>"

definition computed_weight_graph :: graph_proto where
  "computed_weight_graph =
     \<lparr>graph_initializer = [],
      graph_input = [\<lparr>value_name = ''x''\<rparr>],
      graph_output = [\<lparr>value_name = ''y''\<rparr>],
      graph_node = [relu_node, computed_weight_conv]\<rparr>"

definition one_input_state :: builder where
  "one_input_state =
     \<lparr>nodes = [''input_0'' \<mapsto> Variable ''input_0'' None],
      params = Map.empty,
      renames = [''x'' \<mapsto> ''input_0''],
      num_input = 1, num_param = 0\<rparr>"

definition computed_weight_state :: builder where
  "computed_weight_state =
     \<lparr>nodes = [''input_0'' \<mapsto> Variable ''input_0'' None,
               ''w'' \<mapsto> Slot (Apply ''Relu'' None [Variable ''input_0'' None] Map.empty) 0],
      params = Map.empty,
      renames = [''x'' \<mapsto> ''input_0''],
      num_input = 1, num_param = 0\<rparr>"

text \<open>
  A graph whose \<^verbatim>\<open>Add\<close> follows a \<^verbatim>\<open>Conv\<close> and has the bias as its
  first input, with the same initializers and inputs as above, and the state after
  the convolution.
\<close>

definition conv_first_node :: node_proto where
  "conv_first_node = \<lparr>op_type = ''Conv'', node_name = [], node_input = [''x'', ''w''],
                      node_output = [''c''], node_attribute = []\<rparr>"

definition bias_first_add :: node_proto where
  "bias_first_add = \<lparr>op_type = ''Add'', node_name = [], node_input = [''b'', ''c''],
                     node_output = [''y''], node_attribute = []\<rparr>"

definition bias_first_graph :: graph_proto where
  "bias_first_graph =
     \<lparr>graph_initializer =
        [\<lparr>tensor_name = ''b'', tensor_dims = [16], tensor_data = []\<rparr>,
         \<lparr>tensor_name = ''w'', tensor_dims = [16, 3, 3, 3], tensor_data = []\<rparr>],
      graph_input = [\<lparr>value_name = ''x''\<rparr>, \<lparr>value_name = ''b''\<rparr>, \<lparr>value_name = ''w''\<rparr>],
      graph_output = [\<lparr>value_name = ''y''\<rparr>],
      graph_node = [conv_first_node, bias_first_add]\<rparr>"

definition bias_first_start :: builder where
  "bias_first_start =
     init\<lparr>params := [''b'' \<mapsto> \<lparr>shape = [16], buf = []\<rparr>,
                       ''w'' \<mapsto> \<lparr>shape = [16, 3, 3, 3], buf = []\<rparr>]\<rparr>"

definition conv_done_state :: builder where
  "conv_done_state =
     add_first_state
       \<lparr>nodes := (nodes add_first_state)(''c'' \<mapsto>
          Slot (Apply ''Convolution'' None
                  [Variable ''input_0'' None, Variable ''param_1'' (Some [16, 3, 3, 3])]
                  [''no_bias'' \<mapsto> ABool True, ''num_filter'' \<mapsto> AInt 16]) 0)\<rparr>"

section \<open>Properties\<close>

subsection \<open>Auxiliary facts\<close>

lemma ebind_Inr [simp]: "ebind (Inr x) k = k x"
  by (simp add: ebind_def)

lemma ebind_Inl [simp]: "ebind (Inl e) k = Inl e"
  by (simp add: ebind_def)

lemma getitem_nat: "i < length xs \<Longrightarrow> getitem xs (int i) = Inr (xs ! i)"
  by (simp add: getitem_def)

lemma getitem_0: "getitem (x # xs) 0 = Inr x"
  using getitem_nat [of 0 "x # xs"] by simp

lemma getitem_1: "getitem (x # y # xs) 1 = Inr y"
  using getitem_nat [of 1 "x # y # xs"] by simp

lemma getitem_2: "getitem (x # y # z # xs) 2 = Inr z"
  using getitem_nat [of 2 "x # y # z # xs"] by simp

lemma transpose_at_0: "transpose_at (x # xs) 0 = Inr (Transpose x # xs)"
  using getitem_0 [of x xs] by (simp add: transpose_at_def)

lemma transpose_at_1: "transpose_at (x # y # xs) (Suc 0) = Inr (x # Transpose y # xs)"
  using getitem_1 [of x y xs] by (simp add: transpose_at_def)

subsection \<open>\<^verbatim>\<open>_fix_outputs\<close>\<close>



subsection \<open>\<^verbatim>\<open>_fix_bias\<close>\<close>

text \<open>
  Claim C6. For an operator among Convolution, Deconvolution and FullyConnected,
  \<^verbatim>\<open>_fix_bias\<close> records that a bias is present when the node has three inputs
  and that it is absent when the node has two, and fails with UnexpectedInputArity
  for any other number of inputs; for any other operator the attributes are
  returned unchanged. The attribute is \<^verbatim>\<open>no_bias\<close>: a bias is present when it
  is \<^verbatim>\<open>False\<close>.
\<close>

theorem fix_bias_family:
  "(op \<in> {''Convolution'', ''Deconvolution'', ''FullyConnected''} \<longrightarrow>
      (num_inputs = 3 \<longrightarrow>
         fix_bias op attrs num_inputs = Inr (attrs(''no_bias'' \<mapsto> ABool False))) \<and>
      (num_inputs = 2 \<longrightarrow>
         fix_bias op attrs num_inputs = Inr (attrs(''no_bias'' \<mapsto> ABool True))) \<and>
      (num_inputs \<noteq> 3 \<and> num_inputs \<noteq> 2 \<longrightarrow>
         fix_bias op attrs num_inputs = Inl UnexpectedInputArity)) \<and>
   (op \<notin> {''Convolution'', ''Deconvolution'', ''FullyConnected''} \<longrightarrow>
      fix_bias op attrs num_inputs = Inr attrs)"
  by (simp add: fix_bias_def conv_family_def)

theorem fix_bias_family_witness:
  "fix_bias ''Convolution'' Map.empty 3 = Inr [''no_bias'' \<mapsto> ABool False] \<and>
   fix_bias ''Convolution'' Map.empty 2 = Inr [''no_bias'' \<mapsto> ABool True] \<and>
   fix_bias ''Convolution'' Map.empty 1 = Inl UnexpectedInputArity \<and>
   fix_bias ''Relu'' Map.empty 1 = Inr Map.empty"
  using fix_bias_family [of "''Convolution''" 3 Map.empty]
    fix_bias_family [of "''Convolution''" 2 Map.empty]
    fix_bias_family [of "''Convolution''" 1 Map.empty]
    fix_bias_family [of "''Relu''" 1 Map.empty]
  by simp

subsection \<open>\<^verbatim>\<open>_convert_operator\<close>\<close>

text \<open>
  Claim C9. For an operator name of the identity list that \<^verbatim>\<open>mx.sym\<close>
  defines, \<^verbatim>\<open>_convert_operator\<close> returns the operator of that same name and
  the attribute dictionary it was given, whatever the dictionary is.
\<close>

theorem convert_operator_identity:
  assumes "op_name \<in> set (or_default identity_list (identity_list_default E))"
    and "mx_sym E op_name"
  shows "convert_operator E op_name attrs identity_list convert_map = Inr (op_name, attrs)"
  using assms by (simp add: convert_operator_def)

theorem convert_operator_identity_witness:
  "convert_operator example_env ''Relu'' Map.empty None None = Inr (''Relu'', Map.empty)"
  using convert_operator_identity [of "''Relu''" None example_env Map.empty None]
  by (simp add: example_env_def or_default_def)

subsection \<open>\<^verbatim>\<open>_fix_channels\<close>\<close>

text \<open>
  Claim C7. For an operator among Convolution, Deconvolution and FullyConnected
  whose second input is renamed to a parameter of rank at least two,
  \<^verbatim>\<open>_fix_channels\<close> sets \<^verbatim>\<open>num_hidden\<close> (FullyConnected) or
  \<^verbatim>\<open>num_filter\<close> (the two others) to the first dimension of that parameter; a
  FullyConnected node with a weight of shape 10, 5 gets \<^verbatim>\<open>num_hidden\<close> 10.
\<close>

theorem fix_channels_first_dim:
  assumes "op \<in> {''Convolution'', ''Deconvolution'', ''FullyConnected''}"
    and "1 < length inputs"
    and "renames st (inputs ! 1) = Some weight_name"
    and "params st weight_name = Some weight"
    and "2 \<le> length (shape weight)"
  shows "fix_channels st op attrs inputs =
           Inr (attrs((if op = ''FullyConnected'' then ''num_hidden'' else ''num_filter'')
                        \<mapsto> AInt (int (shape weight ! 0))))"
proof -
  have "getitem inputs 1 = Inr (inputs ! 1)"
    using getitem_nat [of 1 inputs] assms(2) by simp
  then show ?thesis
    using assms by (auto simp: fix_channels_def conv_family_def lookup_def)
qed

theorem fix_channels_first_dim_witness:
  "fix_channels (init\<lparr>params := [''param_0'' \<mapsto> \<lparr>shape = [10, 5], buf = []\<rparr>],
                      renames := [''w'' \<mapsto> ''param_0'']\<rparr>)
     ''FullyConnected'' Map.empty [''x'', ''w''] = Inr [''num_hidden'' \<mapsto> AInt 10]"
  using fix_channels_first_dim [of "''FullyConnected''" "[''x'', ''w'']"
      "init\<lparr>params := [''param_0'' \<mapsto> \<lparr>shape = [10, 5], buf = []\<rparr>],
            renames := [''w'' \<mapsto> ''param_0'']\<rparr>" "''param_0''"
      "\<lparr>shape = [10, 5], buf = []\<rparr>" Map.empty]
  by (simp add: init_def)

text \<open>
  When the second input is a key of \<^verbatim>\<open>_renames\<close>, the two failures of
  \<^verbatim>\<open>_fix_channels\<close> are the ValueError of line 227 and the assertion of line 230.
\<close>

lemma fix_channels_mapped_failures:
  assumes "op \<in> {''Convolution'', ''Deconvolution'', ''FullyConnected''}"
    and "1 < length inputs"
    and "renames st (inputs ! 1) = Some weight_name"
  shows "(params st weight_name = None \<longrightarrow>
            fix_channels st op attrs inputs = Inl MissingWeightParameter) \<and>
         (params st weight_name = Some weight \<and> length (shape weight) < 2 \<longrightarrow>
            fix_channels st op attrs inputs = Inl InvalidWeightShape)"
proof -
  have "getitem inputs 1 = Inr (inputs ! 1)"
    using getitem_nat [of 1 inputs] assms(2) by simp
  then show ?thesis
    using assms by (auto simp: fix_channels_def conv_family_def lookup_def)
qed

subsection \<open>\<^verbatim>\<open>_fix_bias_shape\<close>\<close>

text \<open>
  Claim C4, for a second input that resolves to a parameter. For an
  \<^verbatim>\<open>Add\<close> that follows a \<^verbatim>\<open>Conv\<close>, \<^verbatim>\<open>_fix_bias_shape\<close> fails with
  InvalidBiasShape when the node does not have exactly two inputs, and when the
  parameter its second input resolves to does not have rank one; when that
  parameter has shape \<open>[c]\<close> it is stored again with shape \<open>[1, c, 1, 1]\<close>, and
  the node registered under its name becomes a variable of that shape. For any
  other pair of operators the state is unchanged.
\<close>

theorem fix_bias_shape_after_conv:
  "(length inputs \<noteq> 2 \<longrightarrow>
      fix_bias_shape st ''Add'' ''Conv'' inputs = Inl InvalidBiasShape) \<and>
   (length inputs = 2 \<and> params st (resolve st (inputs ! 1)) = Some bias \<and>
    length (shape bias) \<noteq> 1 \<longrightarrow>
      fix_bias_shape st ''Add'' ''Conv'' inputs = Inl InvalidBiasShape) \<and>
   (length inputs = 2 \<and> params st (resolve st (inputs ! 1)) = Some bias \<and>
    shape bias = [c] \<longrightarrow>
      fix_bias_shape st ''Add'' ''Conv'' inputs =
        Inr (st\<lparr>nodes := (nodes st)(resolve st (inputs ! 1) \<mapsto>
                              Variable (resolve st (inputs ! 1)) (Some [1, c, 1, 1])),
                params := (params st)(resolve st (inputs ! 1) \<mapsto>
                              bias\<lparr>shape := [1, c, 1, 1]\<rparr>)\<rparr>)) \<and>
   (\<not> (op_name = ''Add'' \<and> last_op_name = ''Conv'') \<longrightarrow>
      fix_bias_shape st op_name last_op_name inputs = Inr st)"
  by (simp add: fix_bias_shape_def lookup_def reshape_bias_def Let_def)

theorem fix_bias_shape_after_conv_witness:
  "fix_bias_shape add_first_state ''Add'' ''Conv'' [''x''] = Inl InvalidBiasShape \<and>
   fix_bias_shape add_first_state ''Add'' ''Conv'' [''x'', ''w''] = Inl InvalidBiasShape \<and>
   fix_bias_shape add_first_state ''Add'' ''Conv'' [''x'', ''b''] =
     Inr (add_first_state
            \<lparr>nodes := (nodes add_first_state)(''param_0'' \<mapsto>
                          Variable ''param_0'' (Some [1, 16, 1, 1])),
             params := (params add_first_state)(''param_0'' \<mapsto>
                          \<lparr>shape = [1, 16, 1, 1], buf = []\<rparr>)\<rparr>) \<and>
   fix_bias_shape add_first_state ''Add'' ''Relu'' [''x'', ''b''] = Inr add_first_state"
  using fix_bias_shape_after_conv [of "[''x'']" add_first_state
      "\<lparr>shape = [16], buf = []\<rparr>" 16 "''Add''" "''Relu''"]
    fix_bias_shape_after_conv [of "[''x'', ''w'']" add_first_state
      "\<lparr>shape = [16, 3, 3, 3], buf = []\<rparr>" 16 "''Add''" "''Relu''"]
    fix_bias_shape_after_conv [of "[''x'', ''b'']" add_first_state
      "\<lparr>shape = [16], buf = []\<rparr>" 16 "''Add''" "''Relu''"]
  by (simp add: add_first_state_def resolve_def)

subsection \<open>\<^verbatim>\<open>_fix_gemm\<close>\<close>

text \<open>
  Claim C3. When the four attributes convert to \<open>alpha\<close>, \<open>beta\<close>, \<open>transA\<close> and
  \<open>transB\<close>, and the third input is a symbol named after a parameter of rank at
  least one, \<^verbatim>\<open>_fix_gemm\<close> returns the inputs \<open>alpha * A'\<close>, \<open>B'\<close> and
  \<open>beta * C\<close>, where \<open>A'\<close> is \<open>A\<close> transposed iff \<open>transA\<close> is set and \<open>B'\<close> is
  \<open>B\<close> transposed iff \<open>transB\<close> is not set, with \<^verbatim>\<open>num_hidden\<close> the leading
  dimension of that parameter as the only attribute. An absent attribute counts as
  \<open>alpha = 1\<close>, \<open>beta = 1\<close>, \<open>transA = 0\<close>, \<open>transB = 0\<close>.
\<close>

theorem fix_gemm_fully_connected:
  assumes "py_float E (get_or old_attr ''alpha'' (AFloat 1)) = Inr alpha"
    and "py_float E (get_or old_attr ''beta'' (AFloat 1)) = Inr beta"
    and "py_int E (get_or old_attr ''transA'' (AInt 0)) = Inr transA"
    and "py_int E (get_or old_attr ''transB'' (AInt 0)) = Inr transB"
    and "inputs = a # b # c # rest"
    and "sym_name c = Some bias_name"
    and "params st bias_name = Some bias"
    and "shape bias = d # ds"
  shows "fix_gemm E st op_name inputs old_attr =
           Inr (if mx_sym E op_name then Some op_name else None,
                [MulScalar alpha (if transA \<noteq> 0 then Transpose a else a),
                 (if transB \<noteq> 0 then b else Transpose b),
                 MulScalar beta c],
                [''num_hidden'' \<mapsto> AInt (int d)]) \<and>
         (old_attr ''alpha'' = None \<longrightarrow> alpha = 1) \<and>
         (old_attr ''beta'' = None \<longrightarrow> beta = 1) \<and>
         (old_attr ''transA'' = None \<longrightarrow> transA = 0) \<and>
         (old_attr ''transB'' = None \<longrightarrow> transB = 0)"
proof -
  have dflt: "(old_attr ''alpha'' = None \<longrightarrow> alpha = 1) \<and>
         (old_attr ''beta'' = None \<longrightarrow> beta = 1) \<and>
         (old_attr ''transA'' = None \<longrightarrow> transA = 0) \<and>
         (old_attr ''transB'' = None \<longrightarrow> transB = 0)"
    using assms(1-4) by (auto simp: get_or_def)
  have bias: "getitem (shape bias) 0 = Inr d"
    using assms(8) getitem_0 [of d ds] by simp
  have run: "fix_gemm E st op_name (a # b # c # rest) old_attr =
           Inr (if mx_sym E op_name then Some op_name else None,
                [MulScalar alpha (if transA \<noteq> 0 then Transpose a else a),
                 (if transB \<noteq> 0 then b else Transpose b),
                 MulScalar beta c],
                [''num_hidden'' \<mapsto> AInt (int d)])"
    unfolding fix_gemm_def Let_def
    using assms(1-4,6,7) bias
    by (simp add: transpose_at_0 transpose_at_1 getitem_0 getitem_1 getitem_2 lookup_def)
  show ?thesis using run dflt assms(5) by simp
qed

theorem fix_gemm_fully_connected_witness:
  "fix_gemm example_env
     (init\<lparr>params := [''param_1'' \<mapsto> \<lparr>shape = [8], buf = []\<rparr>]\<rparr>) ''FullyConnected''
     [Variable ''input_0'' None, Variable ''param_0'' (Some [8, 4]),
      Variable ''param_1'' (Some [8])]
     [''alpha'' \<mapsto> AFloat 2, ''beta'' \<mapsto> AFloat 1, ''transA'' \<mapsto> AInt 0, ''transB'' \<mapsto> AInt 0]
   = Inr (Some ''FullyConnected'',
          [MulScalar 2 (Variable ''input_0'' None),
           Transpose (Variable ''param_0'' (Some [8, 4])),
           MulScalar 1 (Variable ''param_1'' (Some [8]))],
          [''num_hidden'' \<mapsto> AInt 8])"
  using fix_gemm_fully_connected [of example_env
      "[''alpha'' \<mapsto> AFloat 2, ''beta'' \<mapsto> AFloat 1, ''transA'' \<mapsto> AInt 0, ''transB'' \<mapsto> AInt 0]"
      2 1 0 0
      "[Variable ''input_0'' None, Variable ''param_0'' (Some [8, 4]),
        Variable ''param_1'' (Some [8])]"
      "Variable ''input_0'' None" "Variable ''param_0'' (Some [8, 4])"
      "Variable ''param_1'' (Some [8])" "[]"
      "''param_1''" "init\<lparr>params := [''param_1'' \<mapsto> \<lparr>shape = [8], buf = []\<rparr>]\<rparr>"
      "\<lparr>shape = [8], buf = []\<rparr>" 8 "[]" "''FullyConnected''"]
  by (simp add: get_or_def example_env_def init_def)

subsection \<open>\<^verbatim>\<open>_parse_attr\<close>\<close>

text \<open>
  A scalar field together with a non-empty list field fails the assertion of line 170.
\<close>

lemma parse_one_scalar_and_list:
  assumes "attr_f a \<noteq> None \<or> attr_i a \<noteq> None \<or> attr_s a \<noteq> None"
    and "attr_floats a \<noteq> [] \<or> attr_ints a \<noteq> [] \<or> attr_strings a \<noteq> []"
  shows "parse_one a attrs = Inl DuplicateAttributeType"
proof -
  have "parse_scalars a attrs (attr_name a) \<noteq> None"
    using assms(1) by (auto simp: parse_scalars_def Let_def split: option.splits)
  then show ?thesis
    using assms(2) by (auto simp: parse_one_def parse_list_def)
qed

text \<open>
  Claim C2. An attribute with both \<^verbatim>\<open>f\<close> and \<^verbatim>\<open>i\<close> set is parsed without
  an error: the second assignment of line 167 overwrites the first, and the assertion
  of line 170 guards the list fields only.
\<close>

theorem parse_attr_two_scalars:
  "parse_attr [\<lparr>attr_name = ''alpha'', attr_f = Some 1, attr_i = Some 2, attr_s = None,
                attr_floats = [], attr_ints = [], attr_strings = [],
                attr_has_t = False, attr_has_g = False, attr_tensors = 0, attr_graphs = 0\<rparr>]
     = Inr [''alpha'' \<mapsto> AInt 2]"
  by (simp add: parse_attr_def parse_one_def parse_list_def parse_scalars_def)

subsection \<open>The loop over \<^verbatim>\<open>graph.input\<close>\<close>

text \<open>The decimal digits of a number determine it.\<close>


lemma format_nat_nonempty: "format_nat n \<noteq> []"
  by (subst format_nat.simps) simp

lemma digit_char_inj: "a < 10 \<Longrightarrow> b < 10 \<Longrightarrow> digit_char a = digit_char b \<Longrightarrow> a = b"
proof -
  assume a: "a < 10" and b: "b < 10" and eq: "digit_char a = digit_char b"
  have "distinct ''0123456789''" by simp
  moreover have "a < length ''0123456789''" "b < length ''0123456789''"
    using a b by simp_all
  ultimately show "a = b"
    using eq unfolding digit_char_def by (simp only: nth_eq_iff_index_eq)
qed

lemma format_nat_inj: "format_nat n = format_nat m \<Longrightarrow> n = m"
proof (induction n arbitrary: m rule: format_nat.induct)
  case (1 n)
  show ?case
  proof (cases "n < 10")
    case small_n: True
    show ?thesis
    proof (cases "m < 10")
      case True
      with small_n "1.prems" show ?thesis
        by (simp add: format_nat.simps [of n] format_nat.simps [of m] digit_char_inj)
    next
      case False
      with small_n "1.prems" format_nat_nonempty [of "m div 10"] show ?thesis
        by (simp add: format_nat.simps [of n] format_nat.simps [of m])
    qed
  next
    case big_n: False
    show ?thesis
    proof (cases "m < 10")
      case True
      with big_n "1.prems" format_nat_nonempty [of "n div 10"] show ?thesis
        by (simp add: format_nat.simps [of n] format_nat.simps [of m])
    next
      case False
      with big_n "1.prems" have pre: "format_nat (n div 10) = format_nat (m div 10)"
        and lst: "digit_char (n mod 10) = digit_char (m mod 10)"
        by (simp_all add: format_nat.simps [of n] format_nat.simps [of m])
      from "1.IH" [OF big_n pre] have "n div 10 = m div 10" .
      moreover from lst have "n mod 10 = m mod 10"
        by (intro digit_char_inj) simp_all
      ultimately show ?thesis
        by (metis div_mult_mod_eq)
    qed
  qed
qed

lemma input_id_in: "(input_name k \<in> input_ids n) = (k < n)"
  by (auto simp: input_ids_def input_name_def dest: format_nat_inj)

lemma param_id_in: "(param_name k \<in> param_ids n) = (k < n)"
  by (auto simp: param_ids_def param_name_def dest: format_nat_inj)

lemma input_id_not_param: "input_name k \<notin> param_ids n"
  by (auto simp: param_ids_def input_name_def param_name_def)

lemma param_id_not_input: "param_name k \<notin> input_ids n"
  by (auto simp: input_ids_def input_name_def param_name_def)

lemma input_ids_Suc: "input_ids (Suc n) = insert (input_name n) (input_ids n)"
  by (auto simp: input_ids_def lessThan_Suc)

lemma param_ids_Suc: "param_ids (Suc n) = insert (param_name n) (param_ids n)"
  by (auto simp: param_ids_def lessThan_Suc)

lemma inj_on_map_upd:
  assumes "inj_on m (dom m)" and "m k = None" and "v \<notin> ran m"
  shows "inj_on (m(k \<mapsto> v)) (dom (m(k \<mapsto> v)))"
proof (rule inj_onI)
  fix x y
  assume x: "x \<in> dom (m(k \<mapsto> v))" and y: "y \<in> dom (m(k \<mapsto> v))"
    and eq: "(m(k \<mapsto> v)) x = (m(k \<mapsto> v)) y"
  show "x = y"
  proof (cases "x = k")
    case True
    show ?thesis
    proof (cases "y = k")
      case True with \<open>x = k\<close> show ?thesis by simp
    next
      case False
      with True eq have "m y = Some v" by simp
      with assms(3) show ?thesis by (simp add: ran_def)
    qed
  next
    case False
    show ?thesis
    proof (cases "y = k")
      case True
      with False eq have "m x = Some v" by simp
      with assms(3) show ?thesis by (simp add: ran_def)
    next
      case yk: False
      with False eq x y have "m x = m y" "x \<in> dom m" "y \<in> dom m" by auto
      with assms(1) show ?thesis by (auto dest: inj_onD)
    qed
  qed
qed

lemma ingest_input_dense:
  assumes "dense st" and "renames st (value_name i) = None"
  shows "dense (ingest_input i st)"
    and "dom (renames (ingest_input i st)) = insert (value_name i) (dom (renames st))"
    and "num_input (ingest_input i st) + num_param (ingest_input i st) = Suc (num_input st + num_param st)"
proof -
  let ?r = "renames st"
  have ran: "ran ?r = input_ids (num_input st) \<union> param_ids (num_param st)"
    and inj: "inj_on ?r (dom ?r)"
    using assms(1) by (simp_all add: dense_def)
  have new_in: "input_name (num_input st) \<notin> ran ?r"
    using ran by (simp add: input_id_in input_id_not_param)
  have new_pa: "param_name (num_param st) \<notin> ran ?r"
    using ran by (simp add: param_id_in param_id_not_input)
  show "dense (ingest_input i st)"
  proof (cases "params st (value_name i)")
    case None
    then show ?thesis
      using ran inj_on_map_upd [OF inj assms(2) new_in] assms(2)
      by (simp add: dense_def ingest_input_def Let_def input_ids_Suc)
  next
    case (Some p)
    then show ?thesis
      using ran inj_on_map_upd [OF inj assms(2) new_pa] assms(2)
      by (simp add: dense_def ingest_input_def Let_def param_ids_Suc)
  qed
  show "dom (renames (ingest_input i st)) = insert (value_name i) (dom (renames st))"
    by (simp add: ingest_input_def Let_def split: option.split)
  show "num_input (ingest_input i st) + num_param (ingest_input i st) = Suc (num_input st + num_param st)"
    by (simp add: ingest_input_def Let_def split: option.split)
qed

lemma ingest_inputs_dense:
  assumes "dense st" and "distinct (map value_name inputs)"
    and "value_name ` set inputs \<inter> dom (renames st) = {}"
  shows "dense (ingest_inputs inputs st) \<and>
         dom (renames (ingest_inputs inputs st)) = value_name ` set inputs \<union> dom (renames st) \<and>
         num_input (ingest_inputs inputs st) + num_param (ingest_inputs inputs st) =
           length inputs + (num_input st + num_param st)"
  using assms
proof (induction inputs arbitrary: st)
  case Nil
  then show ?case by simp
next
  case (Cons i rest)
  from Cons.prems(3) have none: "renames st (value_name i) = None" by auto
  note step = ingest_input_dense [OF Cons.prems(1) none]
  have "value_name ` set rest \<inter> dom (renames (ingest_input i st)) = {}"
    using Cons.prems(2,3) step(2) by auto
  with Cons.IH [OF step(1)] Cons.prems(2) step(2,3) show ?case
    by auto
qed


lemma ingest_initializers_keeps:
  "ingest_initializers E ts st = Inr st' \<Longrightarrow>
     renames st' = renames st \<and> num_input st' = num_input st \<and> num_param st' = num_param st"
proof (induction ts arbitrary: st)
  case Nil
  then show ?case by simp
next
  case (Cons t ts)
  show ?case
  proof (cases "parse_array E t")
    case (Inl e)
    with Cons.prems show ?thesis by (simp split: if_splits)
  next
    case (Inr a)
    with Cons.prems
    have "ingest_initializers E ts (st\<lparr>params := (params st)(tensor_name t \<mapsto> a)\<rparr>) = Inr st'"
      by (simp split: if_splits)
    from Cons.IH [OF this] show ?thesis by simp
  qed
qed

lemma example_start_run:
  "ingest_initializers example_env (graph_initializer example_graph) init = Inr example_start"
  by (simp add: example_graph_def example_env_def example_start_def strip_def is_space_def init_def)

lemma format_nat_0: "format_nat 0 = ''0''"
  by (simp add: format_nat.simps [of 0] digit_char_def)

lemma format_nat_1: "format_nat (Suc 0) = ''1''"
  by (simp add: format_nat.simps [of "Suc 0"] digit_char_def)

text \<open>
  Claim C10, for a graph whose input names are pairwise distinct. On a fresh
  importer, after the loops over the initializers and the inputs, the keys of
  \<^verbatim>\<open>_renames\<close> are the input names, no two of them have the same value,
  and the values are exactly \<^verbatim>\<open>input_0\<close>, ..., \<^verbatim>\<open>input_(k-1)\<close> and
  \<^verbatim>\<open>param_0\<close>, ..., \<^verbatim>\<open>param_(m-1)\<close>, where \<open>k\<close> and \<open>m\<close> are the two
  counters and \<open>k + m\<close> is the number of inputs.
\<close>

theorem ingest_inputs_canonical_ids:
  assumes "distinct (map value_name (graph_input graph))"
    and "ingest_initializers E (graph_initializer graph) init = Inr st"
    and "st' = ingest_inputs (graph_input graph) st"
  shows "dom (renames st') = value_name ` set (graph_input graph) \<and>
         inj_on (renames st') (dom (renames st')) \<and>
         ran (renames st') = input_ids (num_input st') \<union> param_ids (num_param st') \<and>
         (\<forall>k. (input_name k \<in> ran (renames st')) = (k < num_input st')) \<and>
         (\<forall>k. (param_name k \<in> ran (renames st')) = (k < num_param st')) \<and>
         num_input st' + num_param st' = length (graph_input graph)"
proof -
  from ingest_initializers_keeps [OF assms(2)]
  have fresh: "renames st = Map.empty" "num_input st = 0" "num_param st = 0"
    by (simp_all add: init_def)
  then have "dense st"
    by (simp add: dense_def input_ids_def param_ids_def)
  from ingest_inputs_dense [OF this assms(1)] fresh assms(3)
  have d: "dense st'" and rest: "dom (renames st') = value_name ` set (graph_input graph)"
    "num_input st' + num_param st' = length (graph_input graph)"
    by simp_all
  from d show ?thesis
    using rest by (simp add: dense_def input_id_in param_id_in input_id_not_param param_id_not_input)
qed

theorem ingest_inputs_canonical_ids_witness:
  "distinct (map value_name (graph_input example_graph)) \<and>
   dom (renames (ingest_inputs (graph_input example_graph) example_start)) =
     value_name ` set (graph_input example_graph) \<and>
   inj_on (renames (ingest_inputs (graph_input example_graph) example_start))
     (dom (renames (ingest_inputs (graph_input example_graph) example_start))) \<and>
   ran (renames (ingest_inputs (graph_input example_graph) example_start)) =
     input_ids (num_input (ingest_inputs (graph_input example_graph) example_start)) \<union>
     param_ids (num_param (ingest_inputs (graph_input example_graph) example_start)) \<and>
   num_input (ingest_inputs (graph_input example_graph) example_start) +
     num_param (ingest_inputs (graph_input example_graph) example_start) =
     length (graph_input example_graph)"
proof -
  have h: "distinct (map value_name (graph_input example_graph))"
    by (simp add: example_graph_def)
  from ingest_inputs_canonical_ids [OF h example_start_run refl] h
  show ?thesis by blast
qed

text \<open>
  Claim C10, as stated for any graph, fails when an input name occurs twice: the
  second assignment to \<^verbatim>\<open>self._renames[i.name]\<close> overwrites the first, and
  \<^verbatim>\<open>input_0\<close> is no longer a value of the map although \<^verbatim>\<open>input_1\<close> is.
\<close>

theorem ingest_inputs_duplicate_name:
  "''input_0'' \<notin> ran (renames (ingest_inputs [\<lparr>value_name = ''x''\<rparr>, \<lparr>value_name = ''x''\<rparr>] init)) \<and>
   ''input_1'' \<in> ran (renames (ingest_inputs [\<lparr>value_name = ''x''\<rparr>, \<lparr>value_name = ''x''\<rparr>] init)) \<and>
   num_input (ingest_inputs [\<lparr>value_name = ''x''\<rparr>, \<lparr>value_name = ''x''\<rparr>] init) = 2"
  by (simp add: ingest_input_def init_def input_name_def format_nat_0 format_nat_1 ran_def Let_def)


subsection \<open>The node before the first node\<close>

text \<open>\<^verbatim>\<open>xs[-1]\<close> is the last element of a list that has one.\<close>


lemma getitem_minus_one: "xs \<noteq> [] \<Longrightarrow> getitem xs (- 1) = Inr (last xs)"
proof -
  assume ne: "xs \<noteq> []"
  then have len: "0 < length xs" by simp
  have idx: "nat (int (length xs) + - 1) = length xs - 1"
    using len by arith
  have "- int (length xs) \<le> - 1"
    using len by arith
  then have "getitem xs (- 1) = Inr (xs ! nat (int (length xs) + - 1))"
    by (simp add: getitem_def)
  with idx show ?thesis
    using ne by (simp add: last_conv_nth)
qed

lemma ex_parse: "parse_attr (node_attribute add_node) = Inr Map.empty"
  by (simp add: parse_attr_def add_node_def)

lemma ex_convert:
  "convert_operator example_env ''Add'' attrs None None = Inr (''broadcast_add'', attrs)"
  by (simp add: convert_operator_def or_default_def example_env_def)

lemma ex_inputs:
  "input_symbols add_first_state [''x'', ''b''] =
     Inr [Variable ''input_0'' None, Variable ''param_0'' (Some [16])]"
  by (simp add: input_symbols_def lookup_def resolve_def add_first_state_def)

lemma ex_fix_bias: "fix_bias ''broadcast_add'' attrs n = Inr attrs"
  by (simp add: fix_bias_def conv_family_def)

lemma ex_fix_channels: "fix_channels st ''broadcast_add'' attrs inputs = Inr attrs"
  by (simp add: fix_channels_def conv_family_def)

lemma example_prepare:
  "node_prepare example_env add_first_state add_node =
     Inr (Map.empty, ''broadcast_add'', Map.empty)"
proof -
  have "op_type add_node = ''Add''" "node_input add_node = [''x'', ''b'']"
    by (simp_all add: add_node_def)
  then show ?thesis
    unfolding node_prepare_def
    by (simp add: ex_parse ex_convert ex_inputs ex_fix_bias ex_fix_channels)
qed


text \<open>
  Claim C5. At index 0 the previous node \<^verbatim>\<open>graph.node[idx - 1]\<close> is the last
  node of the list. So when the first node is an \<^verbatim>\<open>Add\<close> and the last node is
  a \<^verbatim>\<open>Conv\<close>, and lines 111 to 116 succeed on the first node, line 117 runs
  the body of \<^verbatim>\<open>_fix_bias_shape\<close> on it: the two assertions, the lookup of the
  bias parameter, and the reshape.
\<close>

theorem first_add_sees_last_node:
  assumes "graph_nodes \<noteq> []"
    and "op_type (hd graph_nodes) = ''Add''"
    and "op_type (last graph_nodes) = ''Conv''"
    and "node_prepare E st (hd graph_nodes) = Inr (attr, new_op, new_attr)"
    and "bias_name = resolve st (node_input (hd graph_nodes) ! 1)"
  shows "getitem graph_nodes (int 0 - 1) = Inr (last graph_nodes) \<and>
         node_fixups E graph_nodes st 0 (hd graph_nodes) =
           (if length (node_input (hd graph_nodes)) \<noteq> 2 then Inl InvalidBiasShape
            else case params st bias_name of
                   None \<Rightarrow> Inl (KeyError bias_name)
                 | Some bias \<Rightarrow>
                     if length (shape bias) \<noteq> 1 then Inl InvalidBiasShape
                     else Inr (attr, new_op, new_attr,
                               st\<lparr>nodes := (nodes st)(bias_name \<mapsto>
                                             Variable bias_name (Some [1, prod_list (shape bias), 1, 1])),
                                  params := (params st)(bias_name \<mapsto>
                                             bias\<lparr>shape := [1, prod_list (shape bias), 1, 1]\<rparr>)\<rparr>))"
proof -
  have lst: "getitem graph_nodes (int 0 - 1) = Inr (last graph_nodes)"
    using getitem_minus_one [OF assms(1)] by simp
  have fx: "fix_bias_shape st ''Add'' ''Conv'' (node_input (hd graph_nodes)) =
           (if length (node_input (hd graph_nodes)) \<noteq> 2 then Inl InvalidBiasShape
            else case params st bias_name of
                   None \<Rightarrow> Inl (KeyError bias_name)
                 | Some bias \<Rightarrow>
                     if length (shape bias) \<noteq> 1 then Inl InvalidBiasShape
                     else Inr (st\<lparr>nodes := (nodes st)(bias_name \<mapsto>
                                             Variable bias_name (Some [1, prod_list (shape bias), 1, 1])),
                                  params := (params st)(bias_name \<mapsto>
                                             bias\<lparr>shape := [1, prod_list (shape bias), 1, 1]\<rparr>)\<rparr>))"
    using assms(5)
    by (simp add: fix_bias_shape_def lookup_def reshape_bias_def Let_def split: option.split)
  have "node_fixups E graph_nodes st 0 (hd graph_nodes) =
          ebind (fix_bias_shape st ''Add'' ''Conv'' (node_input (hd graph_nodes)))
            (\<lambda>st. Inr (attr, new_op, new_attr, st))"
    using lst assms(2-4) by (simp add: node_fixups_def)
  also have "\<dots> = (if length (node_input (hd graph_nodes)) \<noteq> 2 then Inl InvalidBiasShape
            else case params st bias_name of
                   None \<Rightarrow> Inl (KeyError bias_name)
                 | Some bias \<Rightarrow>
                     if length (shape bias) \<noteq> 1 then Inl InvalidBiasShape
                     else Inr (attr, new_op, new_attr,
                               st\<lparr>nodes := (nodes st)(bias_name \<mapsto>
                                             Variable bias_name (Some [1, prod_list (shape bias), 1, 1])),
                                  params := (params st)(bias_name \<mapsto>
                                             bias\<lparr>shape := [1, prod_list (shape bias), 1, 1]\<rparr>)\<rparr>))"
    unfolding fx by (simp split: option.split)
  finally show ?thesis using lst by simp
qed



theorem first_add_sees_last_node_witness:
  "op_type (hd [add_node, conv_node]) = ''Add'' \<and>
   op_type (last [add_node, conv_node]) = ''Conv'' \<and>
   node_fixups example_env [add_node, conv_node] add_first_state 0 (hd [add_node, conv_node]) =
     Inr (Map.empty, ''broadcast_add'', Map.empty,
          add_first_state
            \<lparr>nodes := (nodes add_first_state)(''param_0'' \<mapsto>
                          Variable ''param_0'' (Some [1, 16, 1, 1])),
             params := (params add_first_state)(''param_0'' \<mapsto>
                          \<lparr>shape = [1, 16, 1, 1], buf = []\<rparr>)\<rparr>)"
proof -
  have h1: "[add_node, conv_node] \<noteq> []" by simp
  have h2: "op_type (hd [add_node, conv_node]) = ''Add''"
    by (simp add: add_node_def)
  have h3: "op_type (last [add_node, conv_node]) = ''Conv''"
    by (simp add: conv_node_def)
  have h4: "node_prepare example_env add_first_state (hd [add_node, conv_node]) =
              Inr (Map.empty, ''broadcast_add'', Map.empty)"
    using example_prepare by simp
  have h5: "''param_0'' = resolve add_first_state (node_input (hd [add_node, conv_node]) ! 1)"
    by (simp add: resolve_def add_first_state_def add_node_def)
  have two: "length (node_input (hd [add_node, conv_node])) = 2"
    by (simp add: add_node_def)
  have bias: "params add_first_state ''param_0'' = Some \<lparr>shape = [16], buf = []\<rparr>"
    by (simp add: add_first_state_def)
  from first_add_sees_last_node [OF h1 h2 h3 h4 h5] h2 h3 two bias
  show ?thesis by simp
qed

subsection \<open>A weight computed by an earlier node\<close>

text \<open>The importer on the graph \<open>computed_weight_graph\<close>, step by step.\<close>

lemma cw_ingest: "ingest_inputs (graph_input computed_weight_graph) init = one_input_state"
  by (simp add: computed_weight_graph_def ingest_input_def init_def input_name_def
        format_nat_0 one_input_state_def Let_def)

lemma cw_relu_prepare:
  "node_prepare example_env one_input_state relu_node = Inr (Map.empty, ''Relu'', Map.empty)"
  by (simp add: node_prepare_def relu_node_def parse_attr_def convert_operator_def
        or_default_def example_env_def input_symbols_def lookup_def resolve_def
        one_input_state_def fix_bias_def fix_channels_def conv_family_def)

lemma cw_relu_fixups:
  "node_fixups example_env [relu_node, computed_weight_conv] one_input_state 0 relu_node =
     Inr (Map.empty, ''Relu'', Map.empty, one_input_state)"
proof -
  have "getitem [relu_node, computed_weight_conv] (int 0 - 1) = Inr computed_weight_conv"
    using getitem_minus_one [of "[relu_node, computed_weight_conv]"] by simp
  moreover have "op_type relu_node = ''Relu''" by (simp add: relu_node_def)
  ultimately show ?thesis
    by (simp add: node_fixups_def cw_relu_prepare fix_bias_shape_def)
qed

lemma cw_relu_build:
  "node_build example_env relu_node (Map.empty, ''Relu'', Map.empty, one_input_state) =
     Inr computed_weight_state"
  by (simp add: node_build_def relu_node_def strip_def input_symbols_def lookup_def
        resolve_def one_input_state_def example_env_def fix_outputs_def
        computed_weight_state_def)

lemma cw_relu_node:
  "translate_node example_env [relu_node, computed_weight_conv] one_input_state 0 relu_node =
     Inr computed_weight_state"
  by (simp add: translate_node_def cw_relu_fixups cw_relu_build)

lemma cw_inputs:
  "input_symbols computed_weight_state [''x'', ''w''] =
     Inr [Variable ''input_0'' None,
          Slot (Apply ''Relu'' None [Variable ''input_0'' None] Map.empty) 0]"
  by (simp add: input_symbols_def lookup_def resolve_def computed_weight_state_def)

lemma cw_unresolved: "params computed_weight_state (resolve computed_weight_state ''w'') = None"
  by (simp add: resolve_def computed_weight_state_def)

lemma cw_fix_channels:
  "fix_channels computed_weight_state ''Convolution'' attrs [''x'', ''w''] = Inl (KeyError ''w'')"
  by (simp add: fix_channels_def conv_family_def getitem_def lookup_def computed_weight_state_def)

lemma cw_conv_prepare:
  "node_prepare example_env computed_weight_state computed_weight_conv = Inl (KeyError ''w'')"
proof -
  have "op_type computed_weight_conv = ''Conv''"
    "node_input computed_weight_conv = [''x'', ''w'']"
    "node_attribute computed_weight_conv = []"
    by (simp_all add: computed_weight_conv_def)
  moreover have "convert_operator example_env ''Conv'' Map.empty None None =
      Inr (''Convolution'', Map.empty)"
    by (simp add: convert_operator_def or_default_def example_env_def)
  moreover have "fix_bias ''Convolution'' Map.empty 2 = Inr [''no_bias'' \<mapsto> ABool True]"
    by (simp add: fix_bias_def conv_family_def)
  ultimately show ?thesis
    by (simp add: node_prepare_def parse_attr_def cw_inputs cw_fix_channels
          fix_bias_def conv_family_def)
qed

lemma cw_from_onnx: "from_onnx example_env init computed_weight_graph = Inl (KeyError ''w'')"
proof -
  have g: "graph_initializer computed_weight_graph = []"
    "graph_node computed_weight_graph = [relu_node, computed_weight_conv]"
    by (simp_all add: computed_weight_graph_def)
  have "translate_node example_env [relu_node, computed_weight_conv] computed_weight_state
          (Suc 0) computed_weight_conv = Inl (KeyError ''w'')"
    by (simp add: translate_node_def node_fixups_def cw_conv_prepare)
  then have "translate_nodes example_env [relu_node, computed_weight_conv] 0
          [relu_node, computed_weight_conv] one_input_state = Inl (KeyError ''w'')"
    by (simp add: cw_relu_node)
  then show ?thesis
    unfolding from_onnx_def g by (simp add: cw_ingest)
qed

text \<open>
  Claim C1. In the graph \<open>computed_weight_graph\<close> the second input \<^verbatim>\<open>w\<close> of the
  convolution is the output of the node before it. The importer reaches the
  convolution in the state \<open>computed_weight_state\<close>, line 113 finds both input
  symbols, and \<^verbatim>\<open>w\<close> resolves to no parameter; \<^verbatim>\<open>_fix_channels\<close> then raises
  the KeyError of \<^verbatim>\<open>self._renames[inputs[1]]\<close>, not the ValueError of line 227,
  and \<^verbatim>\<open>from_onnx\<close> ends with that KeyError.
\<close>

theorem fix_channels_unmapped_weight:
  "translate_node example_env (graph_node computed_weight_graph)
     (ingest_inputs (graph_input computed_weight_graph) init) 0 relu_node =
     Inr computed_weight_state \<and>
   input_symbols computed_weight_state (node_input computed_weight_conv) =
     Inr [Variable ''input_0'' None,
          Slot (Apply ''Relu'' None [Variable ''input_0'' None] Map.empty) 0] \<and>
   params computed_weight_state
     (resolve computed_weight_state (node_input computed_weight_conv ! 1)) = None \<and>
   fix_channels computed_weight_state ''Convolution'' [''no_bias'' \<mapsto> ABool True]
     (node_input computed_weight_conv) = Inl (KeyError ''w'') \<and>
   from_onnx example_env init computed_weight_graph = Inl (KeyError ''w'')"
proof -
  have "graph_node computed_weight_graph = [relu_node, computed_weight_conv]"
    "node_input computed_weight_conv = [''x'', ''w'']"
    by (simp_all add: computed_weight_graph_def computed_weight_conv_def)
  then show ?thesis
    by (simp add: cw_ingest cw_relu_node cw_inputs cw_unresolved cw_fix_channels cw_from_onnx)
qed

subsection \<open>An \<^verbatim>\<open>Add\<close> with the bias as its first input\<close>

text \<open>The importer on the graph \<open>bias_first_graph\<close>, step by step.\<close>

lemma bf_initializers:
  "ingest_initializers example_env (graph_initializer bias_first_graph) init =
     Inr (init\<lparr>params := [''b'' \<mapsto> \<lparr>shape = [16], buf = []\<rparr>,
                            ''w'' \<mapsto> \<lparr>shape = [16, 3, 3, 3], buf = []\<rparr>]\<rparr>)"
  by (simp add: bias_first_graph_def example_env_def strip_def is_space_def init_def)

lemma bf_params:
  "(([''b'' \<mapsto> tb, ''w'' \<mapsto> tw](''b'' := None))(''param_0'' \<mapsto> tb, ''w'' := None))
     (''param_1'' \<mapsto> tw) = [''param_0'' \<mapsto> tb, ''param_1'' \<mapsto> tw]"
  by (rule ext) simp

lemma bf_inputs:
  "ingest_inputs (graph_input bias_first_graph)
     (init\<lparr>params := [''b'' \<mapsto> \<lparr>shape = [16], buf = []\<rparr>,
                        ''w'' \<mapsto> \<lparr>shape = [16, 3, 3, 3], buf = []\<rparr>]\<rparr>) = add_first_state"
  by (simp add: bias_first_graph_def ingest_input_def init_def input_name_def param_name_def
        format_nat_0 format_nat_1 add_first_state_def Let_def bf_params)

lemma bf_conv_symbols:
  "input_symbols add_first_state [''x'', ''w''] =
     Inr [Variable ''input_0'' None, Variable ''param_1'' (Some [16, 3, 3, 3])]"
  by (simp add: input_symbols_def lookup_def resolve_def add_first_state_def)

lemma bf_conv_channels:
  "fix_channels add_first_state ''Convolution'' attrs [''x'', ''w''] =
     Inr (attrs(''num_filter'' \<mapsto> AInt 16))"
  by (simp add: fix_channels_def conv_family_def getitem_def lookup_def add_first_state_def)

lemma bf_conv_prepare:
  "node_prepare example_env add_first_state conv_first_node =
     Inr (Map.empty, ''Convolution'', [''no_bias'' \<mapsto> ABool True, ''num_filter'' \<mapsto> AInt 16])"
proof -
  have "op_type conv_first_node = ''Conv''" "node_input conv_first_node = [''x'', ''w'']"
    "node_attribute conv_first_node = []"
    by (simp_all add: conv_first_node_def)
  moreover have "convert_operator example_env ''Conv'' Map.empty None None =
      Inr (''Convolution'', Map.empty)"
    by (simp add: convert_operator_def or_default_def example_env_def)
  ultimately show ?thesis
    by (simp add: node_prepare_def parse_attr_def bf_conv_symbols bf_conv_channels
          fix_bias_def conv_family_def)
qed

lemma bf_conv_fixups:
  "node_fixups example_env [conv_first_node, bias_first_add] add_first_state 0 conv_first_node =
     Inr (Map.empty, ''Convolution'', [''no_bias'' \<mapsto> ABool True, ''num_filter'' \<mapsto> AInt 16],
          add_first_state)"
proof -
  have "getitem [conv_first_node, bias_first_add] (int 0 - 1) = Inr bias_first_add"
    using getitem_minus_one [of "[conv_first_node, bias_first_add]"] by simp
  moreover have "op_type conv_first_node = ''Conv''" by (simp add: conv_first_node_def)
  ultimately show ?thesis
    by (simp add: node_fixups_def bf_conv_prepare fix_bias_shape_def)
qed

lemma bf_conv_build:
  "node_build example_env conv_first_node
     (Map.empty, ''Convolution'', [''no_bias'' \<mapsto> ABool True, ''num_filter'' \<mapsto> AInt 16],
      add_first_state) = Inr conv_done_state"
proof -
  have "op_type conv_first_node = ''Conv''" "node_input conv_first_node = [''x'', ''w'']"
    "node_output conv_first_node = [''c'']" "node_name conv_first_node = []"
    by (simp_all add: conv_first_node_def)
  then show ?thesis
    by (simp add: node_build_def strip_def bf_conv_symbols example_env_def fix_outputs_def
          conv_done_state_def)
qed

lemma bf_conv_node:
  "translate_node example_env [conv_first_node, bias_first_add] add_first_state 0 conv_first_node =
     Inr conv_done_state"
  by (simp add: translate_node_def bf_conv_fixups bf_conv_build)

lemma bf_bias: "params conv_done_state (resolve conv_done_state ''b'') = Some \<lparr>shape = [16], buf = []\<rparr>"
  by (simp add: resolve_def conv_done_state_def add_first_state_def)

lemma bf_add_symbols:
  "input_symbols conv_done_state [''b'', ''c''] =
     Inr [Variable ''param_0'' (Some [16]),
          Slot (Apply ''Convolution'' None
                  [Variable ''input_0'' None, Variable ''param_1'' (Some [16, 3, 3, 3])]
                  [''no_bias'' \<mapsto> ABool True, ''num_filter'' \<mapsto> AInt 16]) 0]"
  by (simp add: input_symbols_def lookup_def resolve_def conv_done_state_def add_first_state_def)

lemma bf_fix_bias_shape:
  "fix_bias_shape conv_done_state ''Add'' ''Conv'' [''b'', ''c''] = Inl (KeyError ''c'')"
  by (simp add: fix_bias_shape_def lookup_def resolve_def conv_done_state_def
        add_first_state_def)

lemma bf_add_prepare:
  "node_prepare example_env conv_done_state bias_first_add =
     Inr (Map.empty, ''broadcast_add'', Map.empty)"
proof -
  have "op_type bias_first_add = ''Add''" "node_input bias_first_add = [''b'', ''c'']"
    "node_attribute bias_first_add = []"
    by (simp_all add: bias_first_add_def)
  then show ?thesis
    by (simp add: node_prepare_def parse_attr_def ex_convert bf_add_symbols ex_fix_bias
          ex_fix_channels)
qed

lemma bf_add_node:
  "translate_node example_env [conv_first_node, bias_first_add] conv_done_state (Suc 0)
     bias_first_add = Inl (KeyError ''c'')"
proof -
  have "getitem [conv_first_node, bias_first_add] (int (Suc 0) - 1) = Inr conv_first_node"
    using getitem_0 [of conv_first_node "[bias_first_add]"] by simp
  moreover have "op_type bias_first_add = ''Add''" "node_input bias_first_add = [''b'', ''c'']"
    "op_type conv_first_node = ''Conv''"
    by (simp_all add: bias_first_add_def conv_first_node_def)
  ultimately show ?thesis
    by (simp add: translate_node_def node_fixups_def bf_add_prepare bf_fix_bias_shape)
qed

lemma bf_from_onnx: "from_onnx example_env init bias_first_graph = Inl (KeyError ''c'')"
proof -
  have nodes: "graph_node bias_first_graph = [conv_first_node, bias_first_add]"
    by (simp add: bias_first_graph_def)
  have "translate_nodes example_env [conv_first_node, bias_first_add] 0
          [conv_first_node, bias_first_add] add_first_state = Inl (KeyError ''c'')"
    by (simp add: bf_conv_node bf_add_node)
  then show ?thesis
    unfolding from_onnx_def nodes by (simp add: bf_initializers bf_inputs)
qed

text \<open>
  Claim C4, as stated for every \<^verbatim>\<open>Add\<close> that follows a \<^verbatim>\<open>Conv\<close>, fails on
  the graph \<open>bias_first_graph\<close>: the \<^verbatim>\<open>Add\<close> has exactly two inputs and its
  bias is a parameter of rank one, but it is the first input. The lookup of line
  210 takes the second input, the output of the convolution, and raises a KeyError:
  the bias is not reshaped, and the failure is not InvalidBiasShape.
\<close>

theorem fix_bias_shape_bias_first:
  "ingest_initializers example_env (graph_initializer bias_first_graph) init =
     Inr bias_first_start \<and>
   ingest_inputs (graph_input bias_first_graph) bias_first_start = add_first_state \<and>
   translate_node example_env (graph_node bias_first_graph) add_first_state 0 conv_first_node =
     Inr conv_done_state \<and>
   length (node_input bias_first_add) = 2 \<and>
   params conv_done_state (resolve conv_done_state (node_input bias_first_add ! 0)) =
     Some \<lparr>shape = [16], buf = []\<rparr> \<and>
   fix_bias_shape conv_done_state ''Add'' ''Conv'' (node_input bias_first_add) =
     Inl (KeyError ''c'') \<and>
   from_onnx example_env init bias_first_graph = Inl (KeyError ''c'')"
proof -
  have "graph_node bias_first_graph = [conv_first_node, bias_first_add]"
    "node_input bias_first_add = [''b'', ''c'']"
    by (simp_all add: bias_first_graph_def bias_first_add_def)
  then show ?thesis
    by (simp add: bf_initializers bf_inputs bf_conv_node bf_bias bf_fix_bias_shape
          bf_from_onnx bias_first_start_def)
qed

end
